theory Spec2Isabelle
  imports Main
begin

section \<open>The HRML editor (web/js/core/Editor.js)\<close>

text \<open>
  The class \<open>Editor\<close> owns a textarea (\<open>this.editor\<close>), a preview pane
  (\<open>this.preview\<close>) and an optional debug pane (\<open>this.debugOutput\<close>). Its collaborators
  (\<open>AppState\<close>, \<open>ParserManager\<close>, \<open>helpers.js\<close>, \<open>events.js\<close>, \<open>export.js\<close>, the console and
  \<open>hljs\<close>) live in other files. A call into one of them is recorded, in order, in the
  field \<open>calls\<close>; what such a call returns or throws is a parameter: an \<open>env\<close>, whose
  sanitizer, parser and exporter return or throw an \<open>Error\<close> object, or a \<open>behaviour\<close>,
  which can throw any value.
\<close>

subsection \<open>JavaScript strings\<close>

text \<open>\<open>"\n"\<close>\<close>

abbreviation newline :: string where
  "newline \<equiv> [CHR 0x0A]"

text \<open>
  \<open>text.slice(start, end)\<close> and \<open>text.slice(start)\<close> for arguments that are non-negative
  integers (a textarea's \<open>selectionStart\<close> and \<open>selectionEnd\<close> are unsigned): both bounds
  are capped at the length, and a bound pair in the wrong order gives the empty string.
\<close>

definition js_slice :: "string \<Rightarrow> nat \<Rightarrow> nat \<Rightarrow> string" where
  "js_slice text start end' =
     (let len = length text;
          from = min start len;
          to = min end' len;
          span = (if from \<le> to then to - from else 0)
      in take span (drop from text))"

definition js_slice_from :: "string \<Rightarrow> nat \<Rightarrow> string" where
  "js_slice_from text start = js_slice text start (length text)"

text \<open>\<open>text[i]\<close>: a character, or \<open>undefined\<close> (here \<open>None\<close>) at and beyond the length.\<close>

definition js_index :: "string \<Rightarrow> nat \<Rightarrow> char option" where
  "js_index text i = (if i < length text then Some (text ! i) else None)"

text \<open>\<open>suffix.endsWith("\n")\<close>\<close>

definition endsWith_newline :: "string \<Rightarrow> bool" where
  "endsWith_newline s = (case rev s of [] \<Rightarrow> False | c # _ \<Rightarrow> c = CHR 0x0A)"

text \<open>\<open>s || ""\<close>: the empty string is falsy, every other string is itself.\<close>

definition or_empty :: "string \<Rightarrow> string" where
  "or_empty s = (if s = [] then [] else s)"

text \<open>A value in a template literal, \<open>`${v}`\<close>: \<open>undefined\<close> (here \<open>None\<close>) prints as such.\<close>

definition template_string :: "string option \<Rightarrow> string" where
  "template_string v = (case v of None \<Rightarrow> ''undefined'' | Some s \<Rightarrow> s)"

text \<open>
  \<open>prefix.match(/^(jf+|ja|jl|kl)/)\<close>: the matched text, or \<open>null\<close> (here \<open>None\<close>). The
  alternatives are tried in order at the start of the string; \<open>f+\<close> is greedy.
\<close>

fun match_block :: "string \<Rightarrow> string option" where
  "match_block (a # b # rest) =
     (if a = CHR ''j'' \<and> b = CHR ''f'' then Some (a # b # takeWhile (\<lambda>c. c = CHR ''f'') rest)
      else if a = CHR ''j'' \<and> b = CHR ''a'' then Some [a, b]
      else if a = CHR ''j'' \<and> b = CHR ''l'' then Some [a, b]
      else if a = CHR ''k'' \<and> b = CHR ''l'' then Some [a, b]
      else None)"
| "match_block _ = None"

text \<open>Truthiness of a match result: an array is truthy, \<open>null\<close> is falsy.\<close>

definition truthy :: "'a option \<Rightarrow> bool" where
  "truthy m = (case m of None \<Rightarrow> False | Some _ \<Rightarrow> True)"

subsection \<open>State, collaborators, exceptions\<close>

text \<open>An \<open>Error\<close> object, of which the code reads \<open>message\<close> only.\<close>

datatype js_error = JsError (message: string)

text \<open>
  What a \<open>throw\<close> can carry in general: \<open>null\<close> or \<open>undefined\<close>; a value with a
  \<open>message\<close> (an \<open>Error\<close> object is one); any other value, whose \<open>message\<close> reads as
  \<open>undefined\<close>.
\<close>

datatype thrown = Nullish | WithMessage string | WithoutMessage

text \<open>Calls into code outside \<open>Editor.js\<close>, as they leave it.\<close>

datatype call =
    SaveContent string
  | UpdateWordCount string
  | ShowNotification string "string option"
  | SanitizeInput string
  | ParseToHtml string
  | HighlightAll
  | ConsoleLog string
  | ConsoleWarn string
  | ConsoleError string js_error
  | ConsoleErrorValue string thrown
  | Focus
  | PreventDefault
  | ExporterToPDF string

record editor =
  editor_value :: string
  selectionStart :: nat
  selectionEnd :: nat
  preview_innerHTML :: string
  debugOutput :: "string option"
  exportIndicator :: "string option"
  calls :: "call list"

text \<open>
  \<open>debugOutput\<close> and \<open>exportIndicator\<close> are \<open>None\<close> when \<open>getElementById\<close> finds no such
  element; otherwise they hold the pane's \<open>textContent\<close> and the indicator's
  \<open>style.display\<close>.
\<close>

record env =
  sanitizeInput :: "string \<Rightarrow> js_error + string"
  parseToHtml :: "string \<Rightarrow> js_error + string"
  isDebugMode :: bool
  json_stringify :: "(string \<times> string) list \<Rightarrow> string"
  toPDF :: "string \<Rightarrow> js_error option"

text \<open>
  A statement runs on the state and either returns a value or throws (\<open>Inl\<close>). Where
  the collaborators keep to \<open>Error\<close> objects the thrown value is a \<open>js_error\<close>.
\<close>

type_synonym ('e, 'a) jsx = "editor \<Rightarrow> ('e + 'a) \<times> editor"

type_synonym 'a js = "(js_error, 'a) jsx"

definition perform :: "call \<Rightarrow> ('e, unit) jsx" where
  "perform c st = (Inr (), st\<lparr>calls := calls st @ [c]\<rparr>)"

definition assign :: "(editor \<Rightarrow> editor) \<Rightarrow> ('e, unit) jsx" where
  "assign f st = (Inr (), f st)"

definition js_bind :: "('e, 'a) jsx \<Rightarrow> ('a \<Rightarrow> ('e, 'b) jsx) \<Rightarrow> ('e, 'b) jsx" where
  "js_bind m f st = (case m st of (Inl e, st') \<Rightarrow> (Inl e, st') | (Inr x, st') \<Rightarrow> f x st')"

text \<open>Statements in sequence: a throw skips the rest.\<close>

fun js_block :: "('e, unit) jsx list \<Rightarrow> ('e, unit) jsx" where
  "js_block [] st = (Inr (), st)"
| "js_block (m # ms) st =
     (case m st of (Inl e, st') \<Rightarrow> (Inl e, st') | (Inr _, st') \<Rightarrow> js_block ms st')"

definition try_catch :: "('e, unit) jsx \<Rightarrow> ('e \<Rightarrow> ('e, unit) jsx) \<Rightarrow> ('e, unit) jsx" where
  "try_catch body handler st =
     (case body st of (Inl e, st') \<Rightarrow> handler e st' | (Inr x, st') \<Rightarrow> (Inr x, st'))"

text \<open>\<open>try { body } finally { cleanup }\<close>: the cleanup runs either way; a throw of the
  body goes on after it unless the cleanup throws itself.\<close>

definition try_finally :: "unit js \<Rightarrow> unit js \<Rightarrow> unit js" where
  "try_finally body cleanup st =
     (case body st of
        (Inl e, st') \<Rightarrow> (case cleanup st' of (Inl e', st'') \<Rightarrow> (Inl e', st'') | (Inr _, st'') \<Rightarrow> (Inl e, st''))
      | (Inr _, st') \<Rightarrow> cleanup st')"

definition call_sanitizeInput :: "env \<Rightarrow> string \<Rightarrow> string js" where
  "call_sanitizeInput env raw st =
     (sanitizeInput env raw, st\<lparr>calls := calls st @ [SanitizeInput raw]\<rparr>)"

definition call_parseToHtml :: "env \<Rightarrow> string \<Rightarrow> string js" where
  "call_parseToHtml env input st =
     (parseToHtml env input, st\<lparr>calls := calls st @ [ParseToHtml input]\<rparr>)"

subsection \<open>logDebug\<close>

definition logDebug :: "env \<Rightarrow> string \<Rightarrow> (string \<times> string) list option \<Rightarrow> unit js" where
  "logDebug env msg details =
     (if \<not> isDebugMode env then assign (\<lambda>st. st)
      else js_block
        [perform (ConsoleLog msg),
         assign (\<lambda>st.
           case debugOutput st of
             None \<Rightarrow> st
           | Some textContent \<Rightarrow>
               (let logEntry = (case details of
                                  None \<Rightarrow> msg
                                | Some d \<Rightarrow> msg @ newline @ json_stringify env d)
                in st\<lparr>debugOutput := Some (textContent @ logEntry @ newline @ newline)\<rparr>))])"

subsection \<open>updatePreview\<close>

text \<open>
  The method with the collaborators of an \<open>env\<close>; \<open>updatePreview_any\<close> below is the
  method with collaborators that can do anything.
\<close>

definition error_block :: "string \<Rightarrow> string" where
  "error_block msg = ''<pre class=\"error\">Error: '' @ msg @ ''</pre>''"

definition updatePreview :: "env \<Rightarrow> unit js" where
  "updatePreview env =
     try_catch
       (\<lambda>st. js_bind (call_sanitizeInput env (editor_value st)) (\<lambda>input.
              js_bind (call_parseToHtml env input) (\<lambda>html.
              js_block
                [assign (\<lambda>s. s\<lparr>preview_innerHTML := html\<rparr>),
                 perform HighlightAll,
                 logDebug env ''Preview updated'' (Some [(''input'', input), (''html'', html)])])) st)
       (\<lambda>error.
          js_block
            [perform (ConsoleError ''Parser error:'' error),
             assign (\<lambda>s. s\<lparr>preview_innerHTML := error_block (message error)\<rparr>),
             logDebug env ''Parser error'' (Some [(''error'', message error)])])"

subsection \<open>updatePreview, whatever the collaborators do\<close>

text \<open>
  In \<open>updatePreview\<close> above the collaborators are those of \<open>env\<close>: the sanitizer and the
  parser return or throw an \<open>Error\<close> object, and \<open>hljs.highlightAll\<close> and
  \<open>AppState.isDebugMode\<close> return. \<open>updatePreview_any\<close> is the same method with both
  restrictions lifted: each of the four calls returns or throws, and a thrown value is any
  \<open>thrown\<close>. The console and the DOM assignments return.
\<close>

record behaviour =
  on_sanitizeInput :: "string \<Rightarrow> thrown + string"
  on_parseToHtml :: "string \<Rightarrow> thrown + string"
  on_highlightAll :: "thrown option"
  on_isDebugMode :: "thrown + bool"
  on_stringify :: "(string \<times> string option) list \<Rightarrow> string"
  typeError_text :: string

text \<open>
  \<open>on_highlightAll\<close> is \<open>None\<close> when the call returns. \<open>typeError_text\<close> is the message the
  engine gives the \<open>TypeError\<close> it raises when a property of \<open>null\<close> or \<open>undefined\<close> is read.
\<close>

definition outcome :: "'e + 'a \<Rightarrow> ('e, 'a) jsx" where
  "outcome r st = (r, st)"

text \<open>\<open>error.message\<close>\<close>

definition read_message :: "behaviour \<Rightarrow> thrown \<Rightarrow> (thrown, string option) jsx" where
  "read_message b error =
     outcome (case error of
                Nullish \<Rightarrow> Inl (WithMessage (typeError_text b))
              | WithMessage m \<Rightarrow> Inr (Some m)
              | WithoutMessage \<Rightarrow> Inr None)"

definition logDebug_any ::
  "behaviour \<Rightarrow> string \<Rightarrow> (string \<times> string option) list option \<Rightarrow> (thrown, unit) jsx" where
  "logDebug_any b msg details =
     js_bind (outcome (on_isDebugMode b)) (\<lambda>debug.
       if \<not> debug then assign (\<lambda>st. st)
       else js_block
         [perform (ConsoleLog msg),
          assign (\<lambda>st.
            case debugOutput st of
              None \<Rightarrow> st
            | Some textContent \<Rightarrow>
                (let logEntry = (case details of
                                   None \<Rightarrow> msg
                                 | Some d \<Rightarrow> msg @ newline @ on_stringify b d)
                 in st\<lparr>debugOutput := Some (textContent @ logEntry @ newline @ newline)\<rparr>))])"

definition updatePreview_any :: "behaviour \<Rightarrow> (thrown, unit) jsx" where
  "updatePreview_any b =
     try_catch
       (\<lambda>st. js_bind (js_bind (perform (SanitizeInput (editor_value st)))
                        (\<lambda>_. outcome (on_sanitizeInput b (editor_value st)))) (\<lambda>input.
              js_bind (js_bind (perform (ParseToHtml input))
                        (\<lambda>_. outcome (on_parseToHtml b input))) (\<lambda>html.
              js_block
                [assign (\<lambda>s. s\<lparr>preview_innerHTML := html\<rparr>),
                 perform HighlightAll,
                 outcome (case on_highlightAll b of None \<Rightarrow> Inr () | Some t \<Rightarrow> Inl t),
                 logDebug_any b ''Preview updated''
                   (Some [(''input'', Some input), (''html'', Some html)])])) st)
       (\<lambda>error.
          js_block
            [perform (ConsoleErrorValue ''Parser error:'' error),
             js_bind (read_message b error) (\<lambda>m.
               assign (\<lambda>s. s\<lparr>preview_innerHTML :=
                 ''<pre class=\"error\">Error: '' @ template_string m @ ''</pre>''\<rparr>)),
             js_bind (read_message b error) (\<lambda>m.
               logDebug_any b ''Parser error'' (Some [(''error'', m)]))])"

text \<open>The collaborators of an \<open>env\<close>, as a \<open>behaviour\<close>.\<close>

definition lawful :: "env \<Rightarrow> behaviour" where
  "lawful env =
     \<lparr>on_sanitizeInput = (\<lambda>raw. case sanitizeInput env raw of
                                  Inl e \<Rightarrow> Inl (WithMessage (message e)) | Inr v \<Rightarrow> Inr v),
      on_parseToHtml = (\<lambda>input. case parseToHtml env input of
                                  Inl e \<Rightarrow> Inl (WithMessage (message e)) | Inr v \<Rightarrow> Inr v),
      on_highlightAll = None,
      on_isDebugMode = Inr (isDebugMode env),
      on_stringify = (\<lambda>d. json_stringify env (map (\<lambda>(k, v). (k, template_string v)) d)),
      typeError_text = []\<rparr>"

subsection \<open>insertMarkup\<close>

definition prependNewline :: "string \<Rightarrow> nat \<Rightarrow> string \<Rightarrow> bool \<Rightarrow> string" where
  "prependNewline text start prefix ensureNewline =
     (if ensureNewline \<and> 0 < start \<and> js_index text (start - 1) \<noteq> Some (CHR 0x0A)
         \<and> truthy (match_block prefix)
      then newline else [])"

definition appendNewline :: "string \<Rightarrow> string \<Rightarrow> bool \<Rightarrow> string" where
  "appendNewline prefix suffix ensureNewline =
     (if ensureNewline \<and> \<not> endsWith_newline suffix \<and> truthy (match_block prefix)
      then newline else [])"

definition newText :: "string \<Rightarrow> nat \<Rightarrow> nat \<Rightarrow> string \<Rightarrow> string \<Rightarrow> bool \<Rightarrow> string" where
  "newText text start end' prefix suffix ensureNewline =
     js_slice text 0 start
     @ prependNewline text start prefix ensureNewline
     @ prefix
     @ or_empty (js_slice text start end')
     @ suffix
     @ appendNewline prefix suffix ensureNewline
     @ js_slice_from text end'"

definition newPosition :: "string \<Rightarrow> nat \<Rightarrow> nat \<Rightarrow> string \<Rightarrow> string \<Rightarrow> bool \<Rightarrow> nat" where
  "newPosition text start end' prefix suffix ensureNewline =
     start
     + length (prependNewline text start prefix ensureNewline)
     + length prefix
     + length (or_empty (js_slice text start end'))
     + (if suffix \<noteq> [] then length suffix else 0)"

text \<open>
  \<open>setSelectionRange(a, b)\<close>: the range the code asks for. (A browser caps it at the
  length of the value.)
\<close>

definition setSelectionRange :: "nat \<Rightarrow> nat \<Rightarrow> unit js" where
  "setSelectionRange a b = assign (\<lambda>st. st\<lparr>selectionStart := a, selectionEnd := b\<rparr>)"

text \<open>
  \<open>insertMarkup(prefix, suffix = "", ensureNewline = true)\<close>; a caller that leaves an
  argument out passes its default here.
\<close>

definition insertMarkup :: "env \<Rightarrow> string \<Rightarrow> string \<Rightarrow> bool \<Rightarrow> unit js" where
  "insertMarkup env prefix suffix ensureNewline st =
     (let start = selectionStart st;
          end' = selectionEnd st;
          text = editor_value st;
          new = newText text start end' prefix suffix ensureNewline;
          pos = newPosition text start end' prefix suffix ensureNewline
      in js_block
           [assign (\<lambda>s. s\<lparr>editor_value := new\<rparr>),
            perform (SaveContent new),
            updatePreview env,
            setSelectionRange pos pos,
            perform Focus] st)"

definition insertHorizontalRule :: "env \<Rightarrow> unit js" where
  "insertHorizontalRule env = insertMarkup env ''js'' newline True"

definition insertLink :: "env \<Rightarrow> unit js" where
  "insertLink env = insertMarkup env ''jg [text] gh [url] hg'' newline True"

definition insertImage :: "env \<Rightarrow> unit js" where
  "insertImage env = insertMarkup env ''jh [alt] gh [url] hj'' newline True"

definition insertCodeBlock :: "env \<Rightarrow> unit js" where
  "insertCodeBlock env =
     insertMarkup env (''jkd python'' @ newline) (newline @ ''dkj'') True"

definition insertQuote :: "env \<Rightarrow> unit js" where
  "insertQuote env = insertMarkup env ''kl '' newline True"

definition insertNestedQuote :: "env \<Rightarrow> unit js" where
  "insertNestedQuote env = insertMarkup env ''kll '' newline True"

subsection \<open>exportToPDF\<close>

text \<open>
  The \<open>async\<close> function run to its end: \<open>await exporter.toPDF(this.preview)\<close> either
  resolves or rejects, as \<open>toPDF env\<close> says.
\<close>

definition set_indicator :: "string \<Rightarrow> unit js" where
  "set_indicator d =
     assign (\<lambda>st. case exportIndicator st of
                    None \<Rightarrow> st
                  | Some _ \<Rightarrow> st\<lparr>exportIndicator := Some d\<rparr>)"

definition call_toPDF :: "env \<Rightarrow> unit js" where
  "call_toPDF env st =
     ((case toPDF env (preview_innerHTML st) of None \<Rightarrow> Inr () | Some e \<Rightarrow> Inl e),
      st\<lparr>calls := calls st @ [ExporterToPDF (preview_innerHTML st)]\<rparr>)"

definition exportToPDF :: "env \<Rightarrow> unit js" where
  "exportToPDF env =
     try_finally
       (try_catch
          (js_block
             [set_indicator ''flex'',
              call_toPDF env,
              perform (ShowNotification ''Export completed successfully'' None)])
          (\<lambda>error.
             js_block
               [perform (ConsoleError ''Export failed:'' error),
                perform (ShowNotification ''Failed to export PDF'' (Some ''error''))]))
       (set_indicator ''none'')"

subsection \<open>Event handlers\<close>

text \<open>The listener of \<open>content-changed\<close> (constructor).\<close>

definition content_changed :: "env \<Rightarrow> string \<Rightarrow> unit js" where
  "content_changed env content =
     js_block
       [perform (SaveContent content),
        perform (UpdateWordCount content),
        updatePreview env]"

text \<open>
  Modelled from the spec: \<open>events.emit\<close> and \<open>events.on\<close> of \<open>utils/events.js\<close>, which is
  not among the sources. The spec lists \<open>content-changed\<close> among the events the editor
  emits and gives the flow "the coordinator receives the raw text, persists, triggers the
  renderer": \<open>emit\<close> hands the payload to the listener registered with \<open>on\<close>.
\<close>

definition emit_content_changed :: "env \<Rightarrow> string \<Rightarrow> unit js" where
  "emit_content_changed env payload = content_changed env payload"

text \<open>
  The handler that \<open>bindEvents\<close> gives to \<open>events.bindEvents\<close> for \<open>input\<close> on the textarea,
  \<open>(e) => events.emit("content-changed", e.target.value)\<close>: when it runs,
  \<open>e.target.value\<close> is what the textarea then holds.
\<close>

definition input_handler :: "env \<Rightarrow> unit js" where
  "input_handler env st = emit_content_changed env (editor_value st) st"

text \<open>The \<open>blur\<close> handler.\<close>

definition on_blur :: "unit js" where
  "on_blur st = perform (SaveContent (editor_value st)) st"

text \<open>
  Modelled from the spec: \<open>events.bindEvents\<close> of \<open>utils/events.js\<close>, with \<open>debounce\<close> of
  \<open>utils/helpers.js\<close> and \<open>DEBOUNCE_DELAY\<close> of \<open>config.js\<close>; none of them is among the sources,
  and \<open>Editor.js\<close> imports the last two without using them. The spec has "debounced
  triggering on raw input events": a timer between \<open>Dirty\<close> and \<open>Rendering\<close>, "each new edit
  resets the timer, implementing trailing-edge debounce", and the render is triggered
  "after a fixed quiet period with no further edits". A session is the page and the time
  at which the pending timer is due (\<open>None\<close> when idle); times are in milliseconds and
  \<open>delay\<close> stands for \<open>DEBOUNCE_DELAY\<close>.
\<close>

record session =
  page :: editor
  timer :: "nat option"

text \<open>
  Modelled from the spec: a raw \<open>input\<close> event at time \<open>t\<close>. The browser has put the edited
  text \<open>v\<close> into the textarea; the debounced trigger drops the pending timer and starts a
  new one, due at \<open>t + delay\<close>.
\<close>

definition raw_input :: "nat \<Rightarrow> nat \<Rightarrow> string \<Rightarrow> session \<Rightarrow> session" where
  "raw_input delay t v s = \<lparr>page = (page s)\<lparr>editor_value := v\<rparr>, timer = Some (t + delay)\<rparr>"

text \<open>
  Modelled from the spec: the clock reaches \<open>now\<close>. A timer that is due runs the input
  handler of \<open>Editor.js\<close>, once, and the session is idle again.
\<close>

definition elapse :: "env \<Rightarrow> nat \<Rightarrow> session \<Rightarrow> session" where
  "elapse env now s =
     (case timer s of
        None \<Rightarrow> s
      | Some due \<Rightarrow>
          if due \<le> now then \<lparr>page = snd (input_handler env (page s)), timer = None\<rparr> else s)"

text \<open>
  Modelled from the spec: a sequence of edits, each with its time and the text after it,
  in the order in which they happen. Before each edit the clock has reached its time.
\<close>

fun run_edits :: "env \<Rightarrow> nat \<Rightarrow> (nat \<times> string) list \<Rightarrow> session \<Rightarrow> session" where
  "run_edits env delay [] s = s"
| "run_edits env delay ((t, v) # edits) s =
     run_edits env delay edits (raw_input delay t v (elapse env t s))"

text \<open>Modelled from the spec: what the session has come to when the clock shows \<open>now\<close>.\<close>

definition observe :: "env \<Rightarrow> nat \<Rightarrow> (nat \<times> string) list \<Rightarrow> nat \<Rightarrow> session \<Rightarrow> session" where
  "observe env delay edits now s = elapse env now (run_edits env delay edits s)"

text \<open>The render cycles so far: each \<open>updatePreview\<close> starts with one \<open>sanitizeInput\<close> of
  the text it renders.\<close>

fun render_calls :: "call list \<Rightarrow> string list" where
  "render_calls [] = []"
| "render_calls (SanitizeInput raw # cs) = raw # render_calls cs"
| "render_calls (_ # cs) = render_calls cs"

text \<open>
  The click handler of \<open>.toolbar-button\<close>: \<open>action\<close> is \<open>target.dataset.action\<close>, which is
  \<open>undefined\<close> (here \<open>None\<close>) on a button without the attribute. \<open>switch\<close> compares with
  \<open>===\<close>.
\<close>

definition toolbar_click :: "env \<Rightarrow> string option \<Rightarrow> unit js" where
  "toolbar_click env action =
     (if action = Some ''h1'' then insertMarkup env ''jf '' newline True
      else if action = Some ''h2'' then insertMarkup env ''jff '' newline True
      else if action = Some ''h3'' then insertMarkup env ''jfff '' newline True
      else if action = Some ''bold'' then insertMarkup env ''js '' '' sj'' True
      else if action = Some ''italic'' then insertMarkup env ''jd '' '' dj'' True
      else if action = Some ''underline'' then insertMarkup env ''ju '' '' uj'' True
      else if action = Some ''ulist'' then insertMarkup env ''ja '' newline True
      else if action = Some ''olist'' then insertMarkup env ''jl '' newline True
      else if action = Some ''link'' then insertLink env
      else if action = Some ''image'' then insertImage env
      else if action = Some ''code'' then insertCodeBlock env
      else if action = Some ''quote'' then insertQuote env
      else if action = Some ''nested-quote'' then insertNestedQuote env
      else if action = Some ''hr'' then insertHorizontalRule env
      else if action = Some ''export-pdf'' then exportToPDF env
      else perform (ConsoleWarn (''Unknown toolbar action: '' @ template_string action)))"

text \<open>The shortcuts bound with \<open>events.bindShortcuts\<close>: Ctrl and a key.\<close>

definition shortcut :: "env \<Rightarrow> string \<Rightarrow> unit js" where
  "shortcut env key =
     (if key = ''b'' then insertMarkup env ''js'' ''sj'' True
      else if key = ''i'' then insertMarkup env ''jd'' ''dj'' True
      else if key = ''u'' then insertMarkup env ''ju'' ''uj'' True
      else if key = ''k'' then insertLink env
      else if key = ''q'' then insertQuote env
      else if key = ''s'' then
        (\<lambda>st. js_block [perform PreventDefault, perform (SaveContent (editor_value st))] st)
      else if key = ''e'' then js_block [perform PreventDefault, exportToPDF env]
      else assign (\<lambda>st. st))"

subsection \<open>The specification's vocabulary\<close>


text \<open>The closed set of toolbar tags of the specification; they are the \<open>case\<close> labels
  of the click handler.\<close>

definition known_actions :: "string list" where
  "known_actions = [''h1'', ''h2'', ''h3'', ''bold'', ''italic'', ''underline'', ''ulist'',
     ''olist'', ''link'', ''image'', ''code'', ''quote'', ''nested-quote'', ''hr'', ''export-pdf'']"

subsection \<open>Fixtures\<close>

text \<open>
  Collaborators that hand their argument back and never throw; an editor with a given
  content and selection; collaborators of which the parser throws \<open>null\<close> (with the text
  that V8 gives the \<open>TypeError\<close>).
\<close>

definition plain_env :: env where
  "plain_env = \<lparr>sanitizeInput = Inr, parseToHtml = Inr, isDebugMode = False,
                json_stringify = concat \<circ> map fst, toPDF = Map.empty\<rparr>"

definition editor_of :: "string \<Rightarrow> nat \<Rightarrow> nat \<Rightarrow> editor" where
  "editor_of text start end' =
     \<lparr>editor_value = text, selectionStart = start, selectionEnd = end',
      preview_innerHTML = [], debugOutput = None, exportIndicator = None, calls = []\<rparr>"

definition parser_throws_null :: behaviour where
  "parser_throws_null =
     \<lparr>on_sanitizeInput = Inr, on_parseToHtml = (\<lambda>_. Inl Nullish), on_highlightAll = None,
      on_isDebugMode = Inr False, on_stringify = (\<lambda>_. []),
      typeError_text = ''Cannot read properties of null (reading 'message')''\<rparr>"

section \<open>Properties\<close>

subsection \<open>Strings\<close>

lemma or_empty_id: "or_empty s = s"
  by (simp add: or_empty_def)

lemma length_js_slice:
  "length (js_slice text s e) = (if s \<le> e then min e (length text) - min s (length text) else 0)"
  by (auto simp: js_slice_def Let_def)

lemma length_js_slice_from: "length (js_slice_from text e) = length text - min e (length text)"
  by (simp add: js_slice_from_def length_js_slice)

lemma length_neq: "length xs \<noteq> length ys \<Longrightarrow> xs \<noteq> ys"
  by auto

text \<open>The prefixes the pattern accepts: those that start with \<open>jf\<close>, \<open>ja\<close>, \<open>jl\<close> or \<open>kl\<close>.\<close>

lemma match_block_prefixes:
  "truthy (match_block p) =
     (take 2 p = ''jf'' \<or> take 2 p = ''ja'' \<or> take 2 p = ''jl'' \<or> take 2 p = ''kl'')"
  by (cases p rule: match_block.cases) (auto simp: truthy_def)

subsection \<open>updatePreview\<close>

lemma updatePreview_returns: "fst (updatePreview env st) = Inr ()"
  by (simp add: updatePreview_def try_catch_def js_bind_def call_sanitizeInput_def
      call_parseToHtml_def assign_def perform_def logDebug_def
      split: sum.splits prod.splits option.splits)

lemma updatePreview_keeps:
  "editor_value (snd (updatePreview env st)) = editor_value st"
  "selectionStart (snd (updatePreview env st)) = selectionStart st"
  "selectionEnd (snd (updatePreview env st)) = selectionEnd st"
  by (simp_all add: updatePreview_def try_catch_def js_bind_def call_sanitizeInput_def
      call_parseToHtml_def assign_def perform_def logDebug_def Let_def
      split: sum.splits prod.splits option.splits)

lemma updatePreview_preview:
  "preview_innerHTML (snd (updatePreview env st)) =
     (case sanitizeInput env (editor_value st) of
        Inl e \<Rightarrow> error_block (message e)
      | Inr input \<Rightarrow> (case parseToHtml env input of
                       Inl e \<Rightarrow> error_block (message e)
                     | Inr html \<Rightarrow> html))"
  by (simp add: updatePreview_def try_catch_def js_bind_def call_sanitizeInput_def
      call_parseToHtml_def assign_def perform_def logDebug_def Let_def
      split: sum.splits prod.splits option.splits)

lemma render_calls_append: "render_calls (xs @ ys) = render_calls xs @ render_calls ys"
  by (induction xs rule: render_calls.induct) simp_all

lemma updatePreview_render_calls:
  "render_calls (calls (snd (updatePreview env st))) = render_calls (calls st) @ [editor_value st]"
  by (simp add: updatePreview_def try_catch_def js_bind_def call_sanitizeInput_def
      call_parseToHtml_def assign_def perform_def logDebug_def Let_def render_calls_append
      split: sum.splits prod.splits option.splits)

lemma updatePreview_eq: "updatePreview env st = (Inr (), snd (updatePreview env st))"
  by (metis updatePreview_returns prod.collapse)

text \<open>With the collaborators of an \<open>env\<close>, \<open>updatePreview_any\<close> is \<open>updatePreview\<close>.\<close>

lemma updatePreview_lawful:
  "fst (updatePreview_any (lawful env) st) = Inr ()"
  "preview_innerHTML (snd (updatePreview_any (lawful env) st))
     = preview_innerHTML (snd (updatePreview env st))"
  "editor_value (snd (updatePreview_any (lawful env) st)) = editor_value (snd (updatePreview env st))"
  by (simp_all add: updatePreview_any_def updatePreview_def lawful_def try_catch_def js_bind_def
      outcome_def read_message_def logDebug_any_def logDebug_def call_sanitizeInput_def
      call_parseToHtml_def assign_def perform_def error_block_def template_string_def Let_def
      split: sum.splits prod.splits option.splits)

text \<open>
  What \<open>updatePreview_any\<close> does when \<open>isDebugMode\<close> returns: the HTML when nothing throws;
  the error block with the message when the parser or \<open>hljs.highlightAll\<close> throws a value
  that has one.
\<close>

lemma updatePreview_any_rendered:
  assumes "on_sanitizeInput b (editor_value st) = Inr input" "on_parseToHtml b input = Inr html"
    "on_highlightAll b = None" "on_isDebugMode b = Inr d"
  shows "fst (updatePreview_any b st) = Inr ()"
    and "preview_innerHTML (snd (updatePreview_any b st)) = html"
  using assms
  by (simp_all add: updatePreview_any_def try_catch_def js_bind_def outcome_def assign_def
      perform_def logDebug_any_def Let_def split: option.splits)

lemma updatePreview_any_parser_error:
  assumes "on_sanitizeInput b (editor_value st) = Inr input"
    "on_parseToHtml b input = Inl (WithMessage m)" "on_isDebugMode b = Inr d"
  shows "fst (updatePreview_any b st) = Inr ()"
    and "preview_innerHTML (snd (updatePreview_any b st))
           = ''<pre class=\"error\">Error: '' @ m @ ''</pre>''"
  using assms
  by (simp_all add: updatePreview_any_def try_catch_def js_bind_def outcome_def assign_def
      perform_def logDebug_any_def read_message_def template_string_def Let_def
      split: option.splits)

lemma updatePreview_any_highlight_error:
  assumes "on_sanitizeInput b (editor_value st) = Inr input" "on_parseToHtml b input = Inr html"
    "on_highlightAll b = Some (WithMessage m)" "on_isDebugMode b = Inr d"
  shows "fst (updatePreview_any b st) = Inr ()"
    and "preview_innerHTML (snd (updatePreview_any b st))
           = ''<pre class=\"error\">Error: '' @ m @ ''</pre>''"
  using assms
  by (simp_all add: updatePreview_any_def try_catch_def js_bind_def outcome_def assign_def
      perform_def logDebug_any_def read_message_def template_string_def Let_def
      split: option.splits)

text \<open>
  When the parser throws \<open>null\<close> or \<open>undefined\<close>, reading \<open>error.message\<close> in the \<open>catch\<close> block
  throws a \<open>TypeError\<close>, which leaves \<open>updatePreview_any\<close>; the preview keeps what it showed.
\<close>

lemma updatePreview_any_parser_nullish:
  assumes "on_sanitizeInput b (editor_value st) = Inr input" "on_parseToHtml b input = Inl Nullish"
  shows "fst (updatePreview_any b st) = Inl (WithMessage (typeError_text b))"
    and "preview_innerHTML (snd (updatePreview_any b st)) = preview_innerHTML st"
  using assms
  by (simp_all add: updatePreview_any_def try_catch_def js_bind_def outcome_def assign_def
      perform_def read_message_def)

subsection \<open>insertMarkup\<close>

lemma insertMarkup_unfold:
  "insertMarkup env prefix suffix ensureNewline st =
     (let new = newText (editor_value st) (selectionStart st) (selectionEnd st)
                  prefix suffix ensureNewline;
          pos = newPosition (editor_value st) (selectionStart st) (selectionEnd st)
                  prefix suffix ensureNewline;
          st3 = snd (updatePreview env
                       (st\<lparr>editor_value := new, calls := calls st @ [SaveContent new]\<rparr>))
      in (Inr (), st3\<lparr>selectionStart := pos, selectionEnd := pos, calls := calls st3 @ [Focus]\<rparr>))"
proof -
  define new where
    "new = newText (editor_value st) (selectionStart st) (selectionEnd st) prefix suffix ensureNewline"
  define st2 where "st2 = st\<lparr>editor_value := new, calls := calls st @ [SaveContent new]\<rparr>"
  obtain st3 where up: "updatePreview env st2 = (Inr (), st3)"
    using updatePreview_eq by blast
  show ?thesis
    unfolding insertMarkup_def Let_def new_def [symmetric]
    by (simp add: assign_def perform_def setSelectionRange_def st2_def [symmetric] up)
qed

lemma insertMarkup_value:
  "editor_value (snd (insertMarkup env prefix suffix ensureNewline st)) =
     newText (editor_value st) (selectionStart st) (selectionEnd st) prefix suffix ensureNewline"
  by (simp add: insertMarkup_unfold Let_def updatePreview_keeps)

lemma insertMarkup_selection:
  "selectionStart (snd (insertMarkup env prefix suffix ensureNewline st)) =
     newPosition (editor_value st) (selectionStart st) (selectionEnd st) prefix suffix ensureNewline"
  "selectionEnd (snd (insertMarkup env prefix suffix ensureNewline st)) =
     newPosition (editor_value st) (selectionStart st) (selectionEnd st) prefix suffix ensureNewline"
  by (simp_all add: insertMarkup_unfold Let_def)

lemma length_newText:
  "s \<le> e \<Longrightarrow>
   length (newText text s e prefix suffix en) =
     length text + length (prependNewline text s prefix en) + length prefix + length suffix
     + length (appendNewline prefix suffix en)"
  by (simp add: newText_def or_empty_id length_js_slice length_js_slice_from min_def)

lemma newText_inline:
  "\<not> truthy (match_block prefix) \<Longrightarrow>
   newText text s e prefix suffix en =
     js_slice text 0 s @ prefix @ js_slice text s e @ suffix @ js_slice_from text e"
  by (simp add: newText_def prependNewline_def appendNewline_def or_empty_id)

lemma inline_markers_differ:
  assumes "\<not> truthy (match_block p)" "\<not> truthy (match_block p')"
    "length p + length s \<noteq> length p' + length s'"
  shows "editor_value (snd (insertMarkup env p s en st))
         \<noteq> editor_value (snd (insertMarkup env p' s' en' st))"
proof (rule length_neq)
  show "length (editor_value (snd (insertMarkup env p s en st))) \<noteq>
        length (editor_value (snd (insertMarkup env p' s' en' st)))"
    using assms by (simp add: insertMarkup_value newText_inline)
qed

subsection \<open>Input events\<close>

lemma js_block_single: "js_block [m] st = m st"
  by (auto split: prod.splits sum.splits)

lemma input_handler_unfold:
  "input_handler env st =
     updatePreview env
       (st\<lparr>calls := calls st @ [SaveContent (editor_value st), UpdateWordCount (editor_value st)]\<rparr>)"
  using js_block_single [of "updatePreview env"]
  by (simp add: input_handler_def emit_content_changed_def content_changed_def perform_def
      del: js_block.simps(2) add: js_block.simps(2) [of "perform c" for c])

lemma input_handler_render_calls:
  "render_calls (calls (snd (input_handler env st))) = render_calls (calls st) @ [editor_value st]"
  by (simp add: input_handler_unfold updatePreview_render_calls render_calls_append)


text \<open>Two edits further apart than the delay are two bursts, and each is rendered.\<close>

lemma separate_bursts_render_separately:
  "render_calls (calls (page (observe plain_env 300 [(0, ''a''), (400, ''ab'')] 700
      \<lparr>page = editor_of [] 0 0, timer = None\<rparr>))) = [''a'', ''ab'']"
  by (simp add: observe_def elapse_def raw_input_def input_handler_render_calls editor_of_def)

section \<open>The claims\<close>



text \<open>
  C2 (amended). For every editor state with \<open>selectionStart \<le> selectionEnd\<close> and every rule,
  the new content is as long as the old content plus the leading newline (0 or 1), the
  prefix, the suffix and the trailing newline (0 or 1). The selected text stays where it
  was and adds nothing.
\<close>

theorem insert_length:
  assumes "selectionStart st \<le> selectionEnd st"
  shows "length (editor_value (snd (insertMarkup env prefix suffix ensureNewline st))) =
     length (editor_value st)
     + length (prependNewline (editor_value st) (selectionStart st) prefix ensureNewline)
     + length prefix + length suffix
     + length (appendNewline prefix suffix ensureNewline)"
  using assms by (simp add: insertMarkup_value length_newText)

theorem insert_length_witness:
  "selectionStart (editor_of ''ab'' 0 2) \<le> selectionEnd (editor_of ''ab'' 0 2) \<and>
   length (editor_value (snd (insertMarkup plain_env ''js '' '' sj'' True (editor_of ''ab'' 0 2))))
     = 8"
  using insert_length [of "editor_of ''ab'' 0 2" plain_env "''js ''" "'' sj''" True]
  by (simp add: editor_of_def prependNewline_def appendNewline_def truthy_def)

text \<open>The formula of C2 as stated counts the selected text \<open>ab\<close> a second time: 10, not 8.\<close>

theorem insert_length_counts_selection_once:
  "length (editor_value (snd (insertMarkup plain_env ''js '' '' sj'' True (editor_of ''ab'' 0 2))))
   \<noteq> length ''ab'' + length (prependNewline ''ab'' 0 ''js '' True) + length ''js ''
     + length (js_slice ''ab'' 0 2) + length '' sj'' + length (appendNewline ''js '' '' sj'' True)"
  by (simp add: insertMarkup_value newText_def editor_of_def prependNewline_def appendNewline_def
      truthy_def js_slice_def js_slice_from_def or_empty_def)

text \<open>
  C3 (amended). Scenario B: on the empty content with selection \<open>[0,0]\<close>, the heading rule
  (\<open>"jf "\<close>, \<open>"\n"\<close>, \<open>ensureNewline\<close>) gives the content \<open>"jf \n"\<close> and the caret 4: the
  caret counts the suffix, newline or not; it leaves out only a newline that
  \<open>appendNewline\<close> adds, and none is added here.
\<close>

theorem scenario_B_heading:
  assumes "editor_value st = []" "selectionStart st = 0" "selectionEnd st = 0"
  shows "editor_value (snd (insertMarkup env ''jf '' newline True st)) = ''jf '' @ newline
       \<and> selectionStart (snd (insertMarkup env ''jf '' newline True st)) = 4
       \<and> selectionEnd (snd (insertMarkup env ''jf '' newline True st)) = 4"
  using assms
  by (simp add: insertMarkup_value insertMarkup_selection newText_def newPosition_def
      prependNewline_def appendNewline_def truthy_def js_slice_def js_slice_from_def or_empty_def
      endsWith_newline_def)

theorem scenario_B_heading_witness:
  "editor_value (editor_of [] 0 0) = [] \<and> selectionStart (editor_of [] 0 0) = 0
   \<and> selectionEnd (editor_of [] 0 0) = 0
   \<and> editor_value (snd (insertMarkup plain_env ''jf '' newline True (editor_of [] 0 0)))
       = ''jf '' @ newline
   \<and> selectionStart (snd (insertMarkup plain_env ''jf '' newline True (editor_of [] 0 0))) = 4
   \<and> selectionEnd (snd (insertMarkup plain_env ''jf '' newline True (editor_of [] 0 0))) = 4"
  using scenario_B_heading [of "editor_of [] 0 0" plain_env]
  by (simp add: editor_of_def)

text \<open>The caret of scenario B is not 3.\<close>

theorem scenario_B_caret_not_3:
  "selectionStart (snd (insertMarkup plain_env ''jf '' newline True (editor_of [] 0 0))) \<noteq> 3"
  by (simp add: insertMarkup_selection newPosition_def editor_of_def
      prependNewline_def js_slice_def or_empty_def)

text \<open>
  C5. The new content is the text before the selection, a leading newline, the prefix, the
  selected text, the suffix, the trailing newline and the text after the selection; the
  leading newline is there exactly when \<open>ensureNewline\<close> holds, the prefix is block-level,
  \<open>selectionStart > 0\<close> and the character before the selection is not a newline. So
  there is none at the start of the document, and none after a newline.
\<close>

theorem leading_newline_rule:
  "editor_value (snd (insertMarkup env prefix suffix ensureNewline st)) =
     js_slice (editor_value st) 0 (selectionStart st)
     @ (if ensureNewline \<and> truthy (match_block prefix) \<and> 0 < selectionStart st
           \<and> js_index (editor_value st) (selectionStart st - 1) \<noteq> Some (CHR 0x0A)
        then newline else [])
     @ prefix
     @ js_slice (editor_value st) (selectionStart st) (selectionEnd st)
     @ suffix
     @ appendNewline prefix suffix ensureNewline
     @ js_slice_from (editor_value st) (selectionEnd st)
   \<and> (selectionStart st = 0 \<longrightarrow>
        editor_value (snd (insertMarkup env prefix suffix ensureNewline st)) =
          prefix
          @ js_slice (editor_value st) 0 (selectionEnd st)
          @ suffix
          @ appendNewline prefix suffix ensureNewline
          @ js_slice_from (editor_value st) (selectionEnd st))
   \<and> (js_index (editor_value st) (selectionStart st - 1) = Some (CHR 0x0A) \<longrightarrow>
        editor_value (snd (insertMarkup env prefix suffix ensureNewline st)) =
          js_slice (editor_value st) 0 (selectionStart st)
          @ prefix
          @ js_slice (editor_value st) (selectionStart st) (selectionEnd st)
          @ suffix
          @ appendNewline prefix suffix ensureNewline
          @ js_slice_from (editor_value st) (selectionEnd st))"
  by (simp add: insertMarkup_value newText_def prependNewline_def or_empty_id js_slice_def)

theorem leading_newline_rule_witness:
  "selectionStart (editor_of ''ab'' 0 1) = 0
   \<and> editor_value (snd (insertMarkup plain_env ''jf '' newline True (editor_of ''ab'' 0 1)))
       = ''jf a'' @ newline @ ''b''
   \<and> js_index (editor_value (editor_of (''a'' @ newline @ ''b'') 2 2))
        (selectionStart (editor_of (''a'' @ newline @ ''b'') 2 2) - 1) = Some (CHR 0x0A)
   \<and> editor_value (snd (insertMarkup plain_env ''jf '' newline True
                          (editor_of (''a'' @ newline @ ''b'') 2 2)))
       = ''a'' @ newline @ ''jf '' @ newline @ ''b''"
  using leading_newline_rule [of plain_env "''jf ''" newline True "editor_of ''ab'' 0 1"]
        leading_newline_rule [of plain_env "''jf ''" newline True
                                 "editor_of (''a'' @ newline @ ''b'') 2 2"]
  by (simp add: editor_of_def js_slice_def js_slice_from_def js_index_def appendNewline_def
      endsWith_newline_def)

text \<open>
  C6. For a selection with \<open>selectionStart \<le> selectionEnd \<le> content.length\<close> and every
  rule, the selection that \<open>insertMarkup\<close> sets is collapsed and lies within the new
  content.
\<close>

theorem caret_collapsed_within_content:
  assumes "selectionStart st \<le> selectionEnd st" "selectionEnd st \<le> length (editor_value st)"
  shows "selectionStart (snd (insertMarkup env prefix suffix ensureNewline st)) =
         selectionEnd (snd (insertMarkup env prefix suffix ensureNewline st))
       \<and> selectionEnd (snd (insertMarkup env prefix suffix ensureNewline st))
           \<le> length (editor_value (snd (insertMarkup env prefix suffix ensureNewline st)))"
  using assms
  by (simp add: insertMarkup_value insertMarkup_selection length_newText newPosition_def
      or_empty_id length_js_slice min_def)

theorem caret_collapsed_within_content_witness:
  "selectionStart (editor_of ''hello'' 1 3) \<le> selectionEnd (editor_of ''hello'' 1 3)
   \<and> selectionEnd (editor_of ''hello'' 1 3) \<le> length (editor_value (editor_of ''hello'' 1 3))
   \<and> selectionStart (snd (insertMarkup plain_env ''ja '' [] True (editor_of ''hello'' 1 3))) =
       selectionEnd (snd (insertMarkup plain_env ''ja '' [] True (editor_of ''hello'' 1 3)))
   \<and> selectionEnd (snd (insertMarkup plain_env ''ja '' [] True (editor_of ''hello'' 1 3)))
       \<le> length (editor_value
                   (snd (insertMarkup plain_env ''ja '' [] True (editor_of ''hello'' 1 3))))"
  using caret_collapsed_within_content
          [of "editor_of ''hello'' 1 3" plain_env "''ja ''" "[]" True]
  by (simp add: editor_of_def)

text \<open>
  C7 (the code where it fails). The content is \<open>x\<close>, the preview shows \<open><p>old</p>\<close> and
  the parser throws \<open>null\<close>. The \<open>catch\<close> block logs to the console and then reads
  \<open>error.message\<close>, which throws a \<open>TypeError\<close>: that exception leaves \<open>updatePreview\<close>, and
  the preview still shows the old HTML, not an error block.
\<close>

theorem parser_throwing_null_escapes:
  "updatePreview_any parser_throws_null
     ((editor_of ''x'' 0 0)\<lparr>preview_innerHTML := ''<p>old</p>''\<rparr>)
   = (Inl (WithMessage (typeError_text parser_throws_null)),
      (editor_of ''x'' 0 0)
        \<lparr>preview_innerHTML := ''<p>old</p>'',
         calls := [SanitizeInput ''x'', ParseToHtml ''x'',
                   ConsoleErrorValue ''Parser error:'' Nullish]\<rparr>)"
  by (simp add: updatePreview_any_def try_catch_def js_bind_def outcome_def assign_def
      perform_def read_message_def parser_throws_null_def editor_of_def)

text \<open>
  C8. A click whose action is none of the known tags returns normally and changes nothing
  but the console, where it warns with the tag.
\<close>

theorem unknown_action_warns:
  assumes "action \<notin> Some ` set known_actions"
  shows "toolbar_click env action st =
     (Inr (), st\<lparr>calls := calls st
        @ [ConsoleWarn (''Unknown toolbar action: '' @ template_string action)]\<rparr>)"
  using assms by (simp add: known_actions_def toolbar_click_def perform_def)

theorem unknown_action_warns_witness:
  "Some ''strike'' \<notin> Some ` set known_actions
   \<and> toolbar_click plain_env (Some ''strike'') (editor_of ''x'' 0 0) =
       (Inr (), (editor_of ''x'' 0 0)\<lparr>calls := [ConsoleWarn ''Unknown toolbar action: strike'']\<rparr>)"
  using unknown_action_warns [of "Some ''strike''" plain_env "editor_of ''x'' 0 0"]
  by (simp add: known_actions_def editor_of_def template_string_def)

text \<open>
  C9. Ctrl+B, Ctrl+I and Ctrl+U insert the markers without spaces, the toolbar buttons
  \<open>bold\<close>, \<open>italic\<close> and \<open>underline\<close> the markers with spaces; on every editor state the two
  paths of one action leave different content.
\<close>

theorem shortcut_and_toolbar_differ:
  "shortcut env ''b'' = insertMarkup env ''js'' ''sj'' True
   \<and> toolbar_click env (Some ''bold'') = insertMarkup env ''js '' '' sj'' True
   \<and> editor_value (snd (shortcut env ''b'' st))
       \<noteq> editor_value (snd (toolbar_click env (Some ''bold'') st))
   \<and> shortcut env ''i'' = insertMarkup env ''jd'' ''dj'' True
   \<and> toolbar_click env (Some ''italic'') = insertMarkup env ''jd '' '' dj'' True
   \<and> editor_value (snd (shortcut env ''i'' st))
       \<noteq> editor_value (snd (toolbar_click env (Some ''italic'') st))
   \<and> shortcut env ''u'' = insertMarkup env ''ju'' ''uj'' True
   \<and> toolbar_click env (Some ''underline'') = insertMarkup env ''ju '' '' uj'' True
   \<and> editor_value (snd (shortcut env ''u'' st))
       \<noteq> editor_value (snd (toolbar_click env (Some ''underline'') st))"
  by (simp add: shortcut_def toolbar_click_def inline_markers_differ truthy_def)

text \<open>
  C10. The horizontal-rule action is \<open>insertMarkup("js", "\n", true)\<close>. \<open>js\<close> does not match
  the block pattern, so no newline is put before the prefix, wherever the selection is,
  and none after the suffix: the new content is the text before the selection, \<open>js\<close>, the
  selected text, a newline and the text after the selection.
\<close>

theorem horizontal_rule_inline:
  "insertHorizontalRule env = insertMarkup env ''js'' newline True
   \<and> match_block ''js'' = None
   \<and> prependNewline text start ''js'' True = []
   \<and> appendNewline ''js'' newline True = []
   \<and> editor_value (snd (insertHorizontalRule env st)) =
       js_slice (editor_value st) 0 (selectionStart st)
       @ ''js''
       @ js_slice (editor_value st) (selectionStart st) (selectionEnd st)
       @ newline
       @ js_slice_from (editor_value st) (selectionEnd st)"
  by (simp add: insertHorizontalRule_def insertMarkup_value newText_inline truthy_def
      prependNewline_def appendNewline_def)

end
